theory Spec2Isabelle
  imports Main "HOL-Library.Sublist" "HOL-Library.Signed_Division"
begin

section \<open>Machine integers and the pieces of the Go library the plugin calls\<close>

text \<open>
  Go's \<open>int64\<close> is modelled as \<open>int\<close>; where the source can overflow the
  two's-complement wrap-around is written out with \<open>wrap64\<close>.
\<close>

definition minInt64 :: int where
  "minInt64 = - 9223372036854775808"

definition maxInt64 :: int where
  "maxInt64 = 9223372036854775807"

definition wrap64 :: "int \<Rightarrow> int" where
  "wrap64 x = (x + 9223372036854775808) mod 18446744073709551616 - 9223372036854775808"

text \<open>
  \<open>time.Duration\<close> is an \<open>int64\<close> count of nanoseconds; \<open>time.Second\<close> is
  \<open>1000000000\<close>, and the product of two durations wraps as every \<open>int64\<close> product does.
\<close>

type_synonym duration = int

definition Second :: duration where
  "Second = 1000000000"

definition minDuration :: duration where
  "minDuration = minInt64"

definition maxDuration :: duration where
  "maxDuration = maxInt64"

definition duration_mul :: "duration \<Rightarrow> duration \<Rightarrow> duration" where
  "duration_mul a b = wrap64 (a * b)"

text \<open>
  \<open>time.Time\<close> as an absolute instant: whole seconds since the Unix epoch and the
  nanoseconds within the second. The location and the monotonic reading of Go's
  representation play no part in the functions modelled here (a time built by
  \<open>time.Unix\<close> has no monotonic reading, so \<open>Sub\<close> compares wall-clock instants).
\<close>

record time =
  sec :: int
  nsec :: int

text \<open>\<open>time.Unix(sec, nsec)\<close>: nanoseconds outside \<open>[0, 1e9)\<close> are carried into the seconds.\<close>

definition Unix :: "int \<Rightarrow> int \<Rightarrow> time" where
  "Unix s n = \<lparr>sec = s + n div 1000000000, nsec = n mod 1000000000\<rparr>"

text \<open>\<open>t.Unix()\<close>: the seconds since the epoch.\<close>

definition time_Unix :: "time \<Rightarrow> int" where
  "time_Unix t = sec t"

text \<open>The zero value \<open>time.Time{}\<close> is January 1, year 1, 00:00:00 UTC.\<close>

definition zero_time :: time where
  "zero_time = \<lparr>sec = - 62135596800, nsec = 0\<rparr>"

text \<open>The exact number of nanoseconds from \<open>u\<close> to \<open>t\<close>.\<close>

definition nanos_between :: "time \<Rightarrow> time \<Rightarrow> int" where
  "nanos_between t u = (sec t - sec u) * 1000000000 + (nsec t - nsec u)"

text \<open>
  \<open>t.Sub(u)\<close>: the duration \<open>t - u\<close>; when the difference does not fit a
  \<open>Duration\<close> the library returns the largest (or smallest) duration instead.
\<close>

definition time_Sub :: "time \<Rightarrow> time \<Rightarrow> duration" where
  "time_Sub t u =
     (let d = nanos_between t u
      in if d > maxDuration then maxDuration
         else if d < minDuration then minDuration
         else d)"

subsection \<open>strconv: decimal formatting and parsing\<close>

text \<open>The digit table of \<open>strconv\<close>, read at an index below the base.\<close>

definition digit_char :: "nat \<Rightarrow> char" where
  "digit_char d = ''0123456789'' ! d"

definition is_digit :: "char \<Rightarrow> bool" where
  "is_digit c = (48 \<le> (of_char c :: nat) \<and> (of_char c :: nat) \<le> 57)"

definition digit_val :: "char \<Rightarrow> nat" where
  "digit_val c = of_char c - 48"

text \<open>The decimal digits of an unsigned number, most significant first.\<close>

fun formatBits :: "nat \<Rightarrow> string" where
  "formatBits u =
     (if u < 10 then [digit_char u]
      else formatBits (u div 10) @ [digit_char (u mod 10)])"

declare formatBits.simps [simp del]

text \<open>\<open>strconv.FormatInt(i, 10)\<close>, also what \<open>%d\<close> prints.\<close>

definition FormatInt :: "int \<Rightarrow> string" where
  "FormatInt i = (if i < 0 then CHR ''-'' # formatBits (nat (- i)) else formatBits (nat i))"

datatype num_error = ErrSyntax | ErrRange

text \<open>
  The loop of \<open>strconv.ParseUint(s, 10, 64)\<close>, returning the library's pair of a value
  and an error (\<open>None\<close> for \<open>nil\<close>): \<open>cutoff\<close> is \<open>maxUint64 / 10 + 1\<close>; a byte
  that is no decimal digit is a syntax error, and the two overflow checks are those of
  the library, with the \<open>uint64\<close> addition wrapping.
\<close>

definition cutoff :: nat where
  "cutoff = 1844674407370955162"

definition maxUint64 :: nat where
  "maxUint64 = 18446744073709551615"

fun parseUint_loop :: "nat \<Rightarrow> string \<Rightarrow> nat \<times> num_error option" where
  "parseUint_loop n [] = (n, None)"
| "parseUint_loop n (c # cs) =
     (if \<not> is_digit c then (0, Some ErrSyntax)
      else if n \<ge> cutoff then (maxUint64, Some ErrRange)
      else let n' = n * 10;
               n1 = (n' + digit_val c) mod 18446744073709551616
           in if n1 < n' \<or> n1 > maxUint64 then (maxUint64, Some ErrRange)
              else parseUint_loop n1 cs)"

definition ParseUint :: "string \<Rightarrow> nat \<times> num_error option" where
  "ParseUint s = (if s = [] then (0, Some ErrSyntax) else parseUint_loop 0 s)"

text \<open>
  \<open>strconv.ParseInt(s, 10, 64)\<close>: an optional sign, then \<open>ParseUint\<close> (whose range
  error falls through to the range check), then the check against \<open>1 << 63\<close> and the
  conversion to \<open>int64\<close>.
\<close>

definition ParseInt :: "string \<Rightarrow> int \<times> num_error option" where
  "ParseInt s =
     (if s = [] then (0, Some ErrSyntax)
      else
        let neg = (hd s = CHR ''-'');
            s' = (if hd s = CHR ''+'' \<or> hd s = CHR ''-'' then tl s else s);
            (un, err) = ParseUint s'
        in if err \<noteq> None \<and> err \<noteq> Some ErrRange then (0, err)
           else if \<not> neg \<and> un \<ge> 9223372036854775808 then (maxInt64, Some ErrRange)
           else if neg \<and> un > 9223372036854775808 then (minInt64, Some ErrRange)
           else let n = wrap64 (int un)
                in (if neg then wrap64 (- n) else n, None))"

text \<open>\<open>strings.Replace(s, old, "", -1)\<close> for a one-byte \<open>old\<close>: every occurrence goes.\<close>

fun remove_all :: "char \<Rightarrow> string \<Rightarrow> string" where
  "remove_all q [] = []"
| "remove_all q (c # cs) = (if c = q then remove_all q cs else c # remove_all q cs)"

definition quote :: char where
  "quote = CHR 0x22"

section \<open>The plugin\<close>

subsection \<open>jsonTime\<close>

type_synonym jsonTime = time

definition toTime :: "jsonTime \<Rightarrow> time" where
  "toTime t = t"

text \<open>\<open>MarshalJSON\<close> returns the bytes and an error that is always \<open>nil\<close>.\<close>

definition MarshalJSON :: "jsonTime \<Rightarrow> string \<times> num_error option" where
  "MarshalJSON t = (FormatInt (time_Unix (toTime t)), None)"

text \<open>
  \<open>UnmarshalJSON\<close> writes through its receiver: the model takes the old value and
  returns the new one with the error (\<open>None\<close> for \<open>nil\<close>). Go's \<open>/\<close> on integers
  truncates towards zero, which is \<open>sdiv\<close>.
\<close>

definition UnmarshalJSON :: "jsonTime \<Rightarrow> string \<Rightarrow> jsonTime \<times> num_error option" where
  "UnmarshalJSON t s =
     (let r = remove_all quote s;
          (q, err) = ParseInt r
      in if err \<noteq> None then (t, err)
         else (Unix (q sdiv 1000) 0, None))"

subsection \<open>Builds and the filter\<close>

record build =
  Number :: int
  Result :: "string option"
  Timestamp :: jsonTime

definition isUnfinished :: "build \<Rightarrow> bool" where
  "isUnfinished b = (Result b = None)"

record builds =
  Builds :: "build list"

text \<open>
  The loop of \<open>filterUnfinishedTooLongBuilds\<close>, with \<open>ret\<close> as its accumulator; the
  reading of the clock (\<open>time.Now()\<close>) is the parameter \<open>now\<close>.
\<close>

fun filter_loop :: "time \<Rightarrow> duration \<Rightarrow> build list \<Rightarrow> build list \<Rightarrow> build list" where
  "filter_loop now threshold ret [] = ret"
| "filter_loop now threshold ret (b # bs) =
     (if isUnfinished b \<and> time_Sub now (toTime (Timestamp b)) > threshold
      then filter_loop now threshold (ret @ [b]) bs
      else filter_loop now threshold ret bs)"

definition filterUnfinishedTooLongBuilds :: "time \<Rightarrow> build list \<Rightarrow> duration \<Rightarrow> build list" where
  "filterUnfinishedTooLongBuilds now bs threshold = filter_loop now threshold [] bs"

subsection \<open>The check\<close>

record opts =
  Scheme :: string
  Host :: string
  Port :: int
  JobName :: string
  MaxJobNumber :: int
  WarningSecond :: int
  CritSecond :: int

datatype status = OK | WARNING | CRITICAL | UNKNOWN

record checker =
  Status :: status
  Message :: string

definition NewChecker :: "status \<Rightarrow> string \<Rightarrow> checker" where
  "NewChecker st msg = \<lparr>Status = st, Message = msg\<rparr>"

definition Unknown :: "string \<Rightarrow> checker" where
  "Unknown msg = NewChecker UNKNOWN msg"

text \<open>What an invocation of \<open>run\<close> ends in: \<open>os.Exit\<close> or the returned checker.\<close>

datatype outcome = Exit int | Return checker

definition url :: "opts \<Rightarrow> string" where
  "url c = Scheme c @ ''://'' @ Host c @ '':'' @ FormatInt (Port c) @ ''/job/'' @ JobName c
     @ ''/api/json?tree=builds[result,number,timestamp]{,'' @ FormatInt (MaxJobNumber c) @ ''}''"

definition too_long_msg :: "build \<Rightarrow> string" where
  "too_long_msg b = ''Build id = '' @ FormatInt (Number b) @ '' takes too long time''"

text \<open>
  \<open>run\<close>. Its surroundings are parameters: \<open>parsed\<close> is what \<open>flags.ParseArgs\<close> left
  in \<open>opts\<close> (\<open>None\<close> when it returned an error), \<open>http_Get\<close> answers a URL with the
  error's text or the response body, \<open>Decode\<close> is the JSON decoder writing into the
  struct it is given and returning its error, and \<open>now1\<close>, \<open>now2\<close> are the clock
  readings of the two calls of the filter. The decoder's error is dropped, as in the source.
\<close>

definition run ::
  "opts option \<Rightarrow> (string \<Rightarrow> string + 'body) \<Rightarrow> ('body \<Rightarrow> builds \<Rightarrow> builds \<times> string option)
     \<Rightarrow> time \<Rightarrow> time \<Rightarrow> outcome" where
  "run parsed http_Get Decode now1 now2 =
     (case parsed of
        None \<Rightarrow> Exit 1
      | Some c \<Rightarrow>
          (case http_Get (url c) of
             Inl err \<Rightarrow> Return (Unknown (''Faild to fetch jenkins metrics: '' @ err))
           | Inr body \<Rightarrow>
               (let bs = fst (Decode body \<lparr>Builds = []\<rparr>)
                in (case filterUnfinishedTooLongBuilds now1 (Builds bs)
                           (duration_mul Second (CritSecond c)) of
                      b # _ \<Rightarrow> Return (NewChecker CRITICAL (too_long_msg b))
                    | [] \<Rightarrow>
                        (case filterUnfinishedTooLongBuilds now2 (Builds bs)
                                (duration_mul Second (WarningSecond c)) of
                           b # _ \<Rightarrow> Return (NewChecker WARNING (too_long_msg b))
                         | [] \<Rightarrow>
                             Return (NewChecker OK ''No build that takes too long time exists''))))))"

section \<open>Auxiliary notions for the statements\<close>

text \<open>The value of a string of decimal digits, read from the left, starting from \<open>n\<close>.\<close>

fun dec_fold :: "nat \<Rightarrow> string \<Rightarrow> nat" where
  "dec_fold n [] = n"
| "dec_fold n (c # cs) = dec_fold (n * 10 + digit_val c) cs"

text \<open>
  A decimal integer as the specification speaks of it: an optional sign and then one or
  more decimal digits; \<open>decimal_value\<close> is the number it denotes.
\<close>

definition valid_decimal_integer :: "string \<Rightarrow> bool" where
  "valid_decimal_integer s =
     (case s of
        [] \<Rightarrow> False
      | c # cs \<Rightarrow>
          if c = CHR ''+'' \<or> c = CHR ''-'' then cs \<noteq> [] \<and> list_all is_digit cs
          else list_all is_digit s)"

definition decimal_value :: "string \<Rightarrow> int" where
  "decimal_value s =
     (case s of
        [] \<Rightarrow> 0
      | c # cs \<Rightarrow>
          if c = CHR ''-'' then - int (dec_fold 0 cs)
          else if c = CHR ''+'' then int (dec_fold 0 cs)
          else int (dec_fold 0 s))"

text \<open>A decimal integer that fits \<open>int64\<close>.\<close>

definition int64_decimal :: "string \<Rightarrow> bool" where
  "int64_decimal s =
     (valid_decimal_integer s \<and> minInt64 \<le> decimal_value s \<and> decimal_value s \<le> maxInt64)"

text \<open>
  The specification's reading of the quotes: one quote character at the front and one at
  the back are optional and are stripped.
\<close>

definition strip_surrounding_quotes :: "string \<Rightarrow> string" where
  "strip_surrounding_quotes s =
     (let s1 = (if s \<noteq> [] \<and> hd s = quote then tl s else s)
      in if s1 \<noteq> [] \<and> last s1 = quote then butlast s1 else s1)"

text \<open>
  The milliseconds since the epoch of an instant (Go's \<open>UnixMilli\<close>), and the instant
  cut to whole seconds.
\<close>

definition epoch_millis :: "time \<Rightarrow> int" where
  "epoch_millis t = sec t * 1000 + nsec t div 1000000"

definition truncate_seconds :: "time \<Rightarrow> time" where
  "truncate_seconds t = \<lparr>sec = sec t, nsec = 0\<rparr>"

text \<open>What \<open>ParseInt\<close> does after the sign has been picked off.\<close>

definition parse_body :: "bool \<Rightarrow> string \<Rightarrow> int \<times> num_error option" where
  "parse_body neg s' =
     (let (un, err) = ParseUint s'
      in if err \<noteq> None \<and> err \<noteq> Some ErrRange then (0, err)
         else if \<not> neg \<and> un \<ge> 9223372036854775808 then (maxInt64, Some ErrRange)
         else if neg \<and> un > 9223372036854775808 then (minInt64, Some ErrRange)
         else let n = wrap64 (int un)
              in (if neg then wrap64 (- n) else n, None))"

text \<open>The test of the filter's loop, as a predicate on one build.\<close>

definition too_long :: "time \<Rightarrow> duration \<Rightarrow> build \<Rightarrow> bool" where
  "too_long now threshold b =
     (isUnfinished b \<and> time_Sub now (toTime (Timestamp b)) > threshold)"

text \<open>
  Sample data: the plugin's default options for a job \<open>sleep30\<close>, and the two builds of
  the API answer quoted in the source (timestamps cut to seconds, as the decoder does).
\<close>

definition jenkins_opts :: opts where
  "jenkins_opts = \<lparr>Scheme = ''http'', Host = ''localhost'', Port = 8080, JobName = ''sleep30'',
     MaxJobNumber = 10, WarningSecond = 60, CritSecond = 300\<rparr>"

definition build57 :: build where
  "build57 = \<lparr>Number = 57, Result = None, Timestamp = Unix 1503146442 0\<rparr>"

definition build51 :: build where
  "build51 = \<lparr>Number = 51, Result = Some ''SUCCESS'', Timestamp = Unix 1503144132 0\<rparr>"

section \<open>Decimal strings\<close>

lemma dec_fold_ge: "n \<le> dec_fold n cs"
proof (induction cs arbitrary: n)
  case Nil
  show ?case by simp
next
  case (Cons c cs)
  have "n \<le> n * 10 + digit_val c" by simp
  also have "\<dots> \<le> dec_fold (n * 10 + digit_val c) cs" by (rule Cons.IH)
  finally show ?case by simp
qed

lemma dec_fold_snoc: "dec_fold n (cs @ [c]) = dec_fold n cs * 10 + digit_val c"
  by (induction cs arbitrary: n) simp_all

lemma parseUint_loop_digits:
  assumes "list_all is_digit cs" and "n < 18446744073709551616"
  shows "parseUint_loop n cs =
           (if dec_fold n cs < 18446744073709551616 then (dec_fold n cs, None)
            else (maxUint64, Some ErrRange))"
  using assms
proof (induction cs arbitrary: n)
  case Nil
  then show ?case by simp
next
  case (Cons c cs)
  from Cons.prems have dc: "is_digit c" and dcs: "list_all is_digit cs" by simp_all
  have ge: "n * 10 + digit_val c \<le> dec_fold (n * 10 + digit_val c) cs"
    by (rule dec_fold_ge)
  have dv: "digit_val c \<le> 9"
    using dc unfolding is_digit_def digit_val_def by linarith
  show ?case
  proof (cases "n \<ge> cutoff")
    case True
    then have "18446744073709551616 \<le> n * 10 + digit_val c"
      by (simp add: cutoff_def)
    with ge True dc show ?thesis by simp
  next
    case False
    then have small: "n * 10 < 18446744073709551616" by (simp add: cutoff_def)
    show ?thesis
    proof (cases "n * 10 + digit_val c < 18446744073709551616")
      case True
      then have m: "(n * 10 + digit_val c) mod 18446744073709551616 = n * 10 + digit_val c"
        by simp
      show ?thesis
        using False dc m True Cons.IH [OF dcs True]
        by (simp add: Let_def maxUint64_def)
    next
      case ovf: False
      then have "(n * 10 + digit_val c) mod 18446744073709551616
                   = n * 10 + digit_val c - 18446744073709551616"
        using dv small by (simp add: mod_if)
      then have "(n * 10 + digit_val c) mod 18446744073709551616 < n * 10"
        using dv ovf by linarith
      with False dc ovf ge show ?thesis
        by (simp add: Let_def)
    qed
  qed
qed

lemma parseUint_loop_nondigit:
  assumes "\<not> list_all is_digit cs"
  shows "parseUint_loop n cs = (0, Some ErrSyntax) \<or> parseUint_loop n cs = (maxUint64, Some ErrRange)"
  using assms
  by (induction cs arbitrary: n) (auto simp: Let_def)

lemma ParseUint_char:
  "ParseUint cs =
     (if cs \<noteq> [] \<and> list_all is_digit cs
      then (if dec_fold 0 cs < 18446744073709551616 then (dec_fold 0 cs, None)
            else (maxUint64, Some ErrRange))
      else ParseUint cs)
   \<and> (\<not> (cs \<noteq> [] \<and> list_all is_digit cs)
        \<longrightarrow> ParseUint cs = (0, Some ErrSyntax) \<or> ParseUint cs = (maxUint64, Some ErrRange))"
  using parseUint_loop_digits [of cs 0] parseUint_loop_nondigit [of cs 0]
  by (auto simp: ParseUint_def)

lemma ParseUint_cases:
  obtains (ok) "cs \<noteq> []" and "list_all is_digit cs" and "dec_fold 0 cs < 18446744073709551616"
      and "ParseUint cs = (dec_fold 0 cs, None)"
  | (range) "ParseUint cs = (maxUint64, Some ErrRange)"
      and "\<not> (cs \<noteq> [] \<and> list_all is_digit cs \<and> dec_fold 0 cs < 18446744073709551616)"
  | (syn) "ParseUint cs = (0, Some ErrSyntax)" and "\<not> (cs \<noteq> [] \<and> list_all is_digit cs)"
proof (cases "cs \<noteq> [] \<and> list_all is_digit cs")
  case True
  then have "ParseUint cs = (if dec_fold 0 cs < 18446744073709551616 then (dec_fold 0 cs, None)
            else (maxUint64, Some ErrRange))"
    using ParseUint_char [of cs] by simp
  with True show ?thesis
    by (cases "dec_fold 0 cs < 18446744073709551616") (auto intro: ok range)
next
  case False
  then have "ParseUint cs = (0, Some ErrSyntax) \<or> ParseUint cs = (maxUint64, Some ErrRange)"
    using ParseUint_char [of cs] by blast
  with False show ?thesis
    by (auto intro: range syn)
qed

lemma wrap64_id: "minInt64 \<le> x \<Longrightarrow> x \<le> maxInt64 \<Longrightarrow> wrap64 x = x"
  by (simp add: wrap64_def minInt64_def maxInt64_def)

lemma wrap64_neg:
  assumes "u \<le> 9223372036854775808"
  shows "wrap64 (- wrap64 (int u)) = - int u"
proof (cases "u = 9223372036854775808")
  case True
  then show ?thesis by (simp add: wrap64_def)
next
  case False
  with assms have "minInt64 \<le> int u" "int u \<le> maxInt64" "minInt64 \<le> - int u" "- int u \<le> maxInt64"
    by (simp_all add: minInt64_def maxInt64_def)
  then show ?thesis by (simp add: wrap64_id)
qed

lemma ParseInt_body:
  "ParseInt s =
     (if s = [] then (0, Some ErrSyntax)
      else parse_body (hd s = CHR ''-'')
             (if hd s = CHR ''+'' \<or> hd s = CHR ''-'' then tl s else s))"
  by (simp add: ParseInt_def parse_body_def Let_def)

lemma parse_body_pos:
  "parse_body False cs =
     (if cs \<noteq> [] \<and> list_all is_digit cs
      then (if dec_fold 0 cs < 9223372036854775808 then (int (dec_fold 0 cs), None)
            else (maxInt64, Some ErrRange))
      else parse_body False cs)
   \<and> (\<not> (cs \<noteq> [] \<and> list_all is_digit cs) \<longrightarrow> snd (parse_body False cs) \<noteq> None)"
proof (cases cs rule: ParseUint_cases)
  case ok
  have "dec_fold 0 cs < 9223372036854775808 \<Longrightarrow> wrap64 (int (dec_fold 0 cs)) = int (dec_fold 0 cs)"
    by (rule wrap64_id) (simp_all add: minInt64_def maxInt64_def)
  with ok show ?thesis by (simp add: parse_body_def Let_def)
next
  case range
  then show ?thesis by (auto simp: parse_body_def Let_def maxUint64_def)
next
  case syn
  then show ?thesis by (simp add: parse_body_def Let_def)
qed

lemma parse_body_neg:
  "parse_body True cs =
     (if cs \<noteq> [] \<and> list_all is_digit cs
      then (if dec_fold 0 cs \<le> 9223372036854775808 then (- int (dec_fold 0 cs), None)
            else (minInt64, Some ErrRange))
      else parse_body True cs)
   \<and> (\<not> (cs \<noteq> [] \<and> list_all is_digit cs) \<longrightarrow> snd (parse_body True cs) \<noteq> None)"
proof (cases cs rule: ParseUint_cases)
  case ok
  have "dec_fold 0 cs \<le> 9223372036854775808
          \<Longrightarrow> wrap64 (- wrap64 (int (dec_fold 0 cs))) = - int (dec_fold 0 cs)"
    by (rule wrap64_neg)
  with ok show ?thesis by (simp add: parse_body_def Let_def)
next
  case range
  then show ?thesis by (auto simp: parse_body_def Let_def maxUint64_def)
next
  case syn
  then show ?thesis by (simp add: parse_body_def Let_def)
qed

lemma sign_not_digit: "\<not> is_digit (CHR ''+'')" "\<not> is_digit (CHR ''-'')"
  by (simp_all add: is_digit_def)

lemma ParseInt_char:
  "ParseInt s = (if int64_decimal s then (decimal_value s, None) else ParseInt s)
   \<and> (\<not> int64_decimal s \<longrightarrow> snd (ParseInt s) \<noteq> None)"
proof (cases s)
  case Nil
  then show ?thesis
    by (simp add: ParseInt_body int64_decimal_def valid_decimal_integer_def)
next
  case (Cons c cs)
  consider (plus) "c = CHR ''+''" | (minus) "c = CHR ''-''" | (none) "c \<noteq> CHR ''+''" "c \<noteq> CHR ''-''"
    by blast
  then show ?thesis
  proof cases
    case plus
    have "ParseInt s = parse_body False cs"
      using Cons plus by (simp add: ParseInt_body)
    moreover have "int64_decimal s \<longleftrightarrow>
        cs \<noteq> [] \<and> list_all is_digit cs \<and> dec_fold 0 cs < 9223372036854775808"
      using Cons plus
      by (auto simp: int64_decimal_def valid_decimal_integer_def decimal_value_def
          minInt64_def maxInt64_def)
    moreover have "decimal_value s = int (dec_fold 0 cs)"
      using Cons plus by (simp add: decimal_value_def)
    ultimately show ?thesis
      using parse_body_pos [of cs] by (auto split: if_splits)
  next
    case minus
    have "ParseInt s = parse_body True cs"
      using Cons minus by (simp add: ParseInt_body)
    moreover have "int64_decimal s \<longleftrightarrow>
        cs \<noteq> [] \<and> list_all is_digit cs \<and> dec_fold 0 cs \<le> 9223372036854775808"
      using Cons minus
      by (auto simp: int64_decimal_def valid_decimal_integer_def decimal_value_def
          minInt64_def maxInt64_def)
    moreover have "decimal_value s = - int (dec_fold 0 cs)"
      using Cons minus by (simp add: decimal_value_def)
    ultimately show ?thesis
      using parse_body_neg [of cs] by (auto split: if_splits)
  next
    case none
    have "ParseInt s = parse_body False s"
      using Cons none by (simp add: ParseInt_body)
    moreover have "int64_decimal s \<longleftrightarrow>
        s \<noteq> [] \<and> list_all is_digit s \<and> dec_fold 0 s < 9223372036854775808"
      using Cons none
      by (auto simp: int64_decimal_def valid_decimal_integer_def decimal_value_def
          minInt64_def maxInt64_def)
    moreover have "decimal_value s = int (dec_fold 0 s)"
      using Cons none by (simp add: decimal_value_def)
    ultimately show ?thesis
      using parse_body_pos [of s] by (auto split: if_splits)
  qed
qed

lemma digit_char_props:
  assumes "d < 10"
  shows "is_digit (digit_char d) \<and> digit_val (digit_char d) = d"
proof -
  from assms have "d \<in> {0, 1, 2, 3, 4, 5, 6, 7, 8, 9}" by auto
  then show ?thesis
    by (auto simp: is_digit_def digit_val_def digit_char_def)
qed

lemma formatBits_digits: "list_all is_digit (formatBits u)"
proof (induction u rule: formatBits.induct)
  case (1 u)
  show ?case
  proof (cases "u < 10")
    case True
    then show ?thesis by (subst formatBits.simps) (simp add: digit_char_props)
  next
    case False
    have "u mod 10 < 10" by simp
    then have "is_digit (digit_char (u mod 10))" using digit_char_props by blast
    with False "1.IH" show ?thesis by (subst formatBits.simps) simp
  qed
qed

lemma formatBits_nonempty: "formatBits u \<noteq> []"
  by (subst formatBits.simps) simp

lemma formatBits_value: "dec_fold 0 (formatBits u) = u"
proof (induction u rule: formatBits.induct)
  case (1 u)
  show ?case
  proof (cases "u < 10")
    case True
    then show ?thesis by (subst formatBits.simps) (simp add: digit_char_props)
  next
    case False
    have "u mod 10 < 10" by simp
    then have "digit_val (digit_char (u mod 10)) = u mod 10" using digit_char_props by blast
    with False "1.IH" show ?thesis
      by (subst formatBits.simps) (simp add: dec_fold_snoc)
  qed
qed

lemma FormatInt_decimal:
  "valid_decimal_integer (FormatInt m) \<and> decimal_value (FormatInt m) = m"
proof (cases "m < 0")
  case True
  then show ?thesis
    by (simp add: FormatInt_def valid_decimal_integer_def decimal_value_def
        formatBits_digits formatBits_nonempty formatBits_value)
next
  case False
  obtain c cs where f: "formatBits (nat m) = c # cs"
    using formatBits_nonempty [of "nat m"] by (cases "formatBits (nat m)") auto
  have "is_digit c" using formatBits_digits [of "nat m"] f by simp
  then have "c \<noteq> CHR ''+''" "c \<noteq> CHR ''-''" using sign_not_digit by auto
  moreover have "list_all is_digit (c # cs)" "dec_fold 0 (c # cs) = nat m"
    using formatBits_digits [of "nat m"] formatBits_value [of "nat m"] f by simp_all
  ultimately show ?thesis
    using False f by (simp add: FormatInt_def valid_decimal_integer_def decimal_value_def)
qed

lemma ParseInt_ok: "int64_decimal s \<Longrightarrow> ParseInt s = (decimal_value s, None)"
  using ParseInt_char [of s] by simp

lemma ParseInt_err: "\<not> int64_decimal s \<Longrightarrow> snd (ParseInt s) \<noteq> None"
  using ParseInt_char [of s] by blast

lemma ParseInt_FormatInt:
  assumes "minInt64 \<le> m" and "m \<le> maxInt64"
  shows "ParseInt (FormatInt m) = (m, None)"
proof -
  have "int64_decimal (FormatInt m)"
    using assms FormatInt_decimal [of m] by (simp add: int64_decimal_def)
  then show ?thesis
    using ParseInt_ok [of "FormatInt m"] FormatInt_decimal [of m] by simp
qed

lemma remove_all_eq: "remove_all q s = filter (\<lambda>c. c \<noteq> q) s"
  by (induction s) simp_all

lemma quote_not_digit: "\<not> is_digit quote"
  by (simp add: is_digit_def quote_def)

lemma no_quote_in_formatBits: "quote \<notin> set (formatBits u)"
  using formatBits_digits [of u] quote_not_digit by (auto simp: list_all_iff)

lemma no_quote_in_FormatInt: "quote \<notin> set (FormatInt m)"
  using no_quote_in_formatBits by (simp add: FormatInt_def quote_def)

lemma remove_all_FormatInt:
  "remove_all quote (FormatInt m) = FormatInt m"
  "remove_all quote (quote # FormatInt m @ [quote]) = FormatInt m"
  using no_quote_in_FormatInt [of m] by (auto simp: remove_all_eq filter_id_conv)

lemma UnmarshalJSON_char:
  "UnmarshalJSON t s =
     (if int64_decimal (remove_all quote s)
      then (Unix (decimal_value (remove_all quote s) sdiv 1000) 0, None)
      else (t, snd (ParseInt (remove_all quote s))))
   \<and> (int64_decimal (remove_all quote s) \<or> snd (ParseInt (remove_all quote s)) \<noteq> None)"
proof (cases "int64_decimal (remove_all quote s)")
  case True
  then have "ParseInt (remove_all quote s) = (decimal_value (remove_all quote s), None)"
    by (rule ParseInt_ok)
  with True show ?thesis by (simp add: UnmarshalJSON_def)
next
  case False
  then have e: "snd (ParseInt (remove_all quote s)) \<noteq> None"
    by (rule ParseInt_err)
  obtain q err where pe: "ParseInt (remove_all quote s) = (q, err)"
    by (cases "ParseInt (remove_all quote s)") auto
  with e have "err \<noteq> None" by simp
  with False pe show ?thesis by (simp add: UnmarshalJSON_def)
qed

section \<open>The filter\<close>

lemma filter_loop_eq:
  "filter_loop now threshold ret bs = ret @ filter (too_long now threshold) bs"
  by (induction bs arbitrary: ret) (simp_all add: too_long_def)

lemma filterUnfinishedTooLongBuilds_eq:
  "filterUnfinishedTooLongBuilds now bs threshold = filter (too_long now threshold) bs"
  by (simp add: filterUnfinishedTooLongBuilds_def filter_loop_eq)

lemma time_Sub_exact_gt:
  assumes "minDuration \<le> threshold" and "threshold < maxDuration"
  shows "time_Sub now u > threshold \<longleftrightarrow> nanos_between now u > threshold"
  using assms by (auto simp: time_Sub_def Let_def minDuration_def maxDuration_def
      minInt64_def maxInt64_def)

text \<open>
  Claim C8. \<open>filterUnfinishedTooLongBuilds\<close> is a stable filter: for every input list,
  every threshold and every reading of the clock, what it returns is a subsequence of its
  input, so the builds it keeps stand in the order the input had them; it is the input
  with the builds that fail the test left out.
\<close>

theorem filter_stable:
  "subseq (filterUnfinishedTooLongBuilds now bs threshold) bs
   \<and> filterUnfinishedTooLongBuilds now bs threshold
       = filter (\<lambda>b. isUnfinished b \<and> time_Sub now (toTime (Timestamp b)) > threshold) bs"
proof -
  have "too_long now threshold
          = (\<lambda>b. isUnfinished b \<and> time_Sub now (toTime (Timestamp b)) > threshold)"
    by (rule ext) (simp add: too_long_def)
  then show ?thesis
    by (simp add: filterUnfinishedTooLongBuilds_eq)
qed

text \<open>
  Claim C2. For every list of builds, every threshold and a fixed reading \<open>now\<close> of the
  clock, a build is in the output of \<open>filterUnfinishedTooLongBuilds\<close> if and only if it
  is in the input, its result is absent (\<open>nil\<close>) and \<open>now.Sub(timestamp)\<close> exceeds the
  threshold. So a build with a result is never in the output, whatever time has passed,
  and neither is a build whose elapsed time is at most the threshold.
\<close>

theorem filter_membership:
  "(b \<in> set (filterUnfinishedTooLongBuilds now bs threshold)
      \<longleftrightarrow> b \<in> set bs \<and> Result b = None \<and> time_Sub now (toTime (Timestamp b)) > threshold)
   \<and> (Result b \<noteq> None \<longrightarrow> b \<notin> set (filterUnfinishedTooLongBuilds now bs threshold))
   \<and> (time_Sub now (toTime (Timestamp b)) \<le> threshold
        \<longrightarrow> b \<notin> set (filterUnfinishedTooLongBuilds now bs threshold))"
  by (auto simp: filterUnfinishedTooLongBuilds_eq too_long_def isUnfinished_def)

theorem filter_membership_witness:
  "(\<lparr>Number = 57, Result = None, Timestamp = Unix 1503146442 0\<rparr>
      \<in> set (filterUnfinishedTooLongBuilds (Unix 1503146842 0)
           [\<lparr>Number = 57, Result = None, Timestamp = Unix 1503146442 0\<rparr>,
            \<lparr>Number = 51, Result = Some ''SUCCESS'', Timestamp = Unix 1503144132 0\<rparr>]
           300000000000))
   \<and> time_Sub (Unix 1503146842 0) (toTime (Unix 1503146442 0)) = 400000000000
   \<and> (\<lparr>Number = 51, Result = Some ''SUCCESS'', Timestamp = Unix 1503144132 0\<rparr>
      \<notin> set (filterUnfinishedTooLongBuilds (Unix 1503146842 0)
           [\<lparr>Number = 57, Result = None, Timestamp = Unix 1503146442 0\<rparr>,
            \<lparr>Number = 51, Result = Some ''SUCCESS'', Timestamp = Unix 1503144132 0\<rparr>]
           300000000000))
   \<and> (\<lparr>Number = 57, Result = None, Timestamp = Unix 1503146442 0\<rparr>
      \<notin> set (filterUnfinishedTooLongBuilds (Unix 1503146842 0)
           [\<lparr>Number = 57, Result = None, Timestamp = Unix 1503146442 0\<rparr>,
            \<lparr>Number = 51, Result = Some ''SUCCESS'', Timestamp = Unix 1503144132 0\<rparr>]
           400000000000))"
proof -
  have d: "time_Sub (Unix 1503146842 0) (toTime (Unix 1503146442 0)) = 400000000000"
    by (simp add: time_Sub_def nanos_between_def Unix_def toTime_def
        maxDuration_def minDuration_def maxInt64_def minInt64_def)
  show ?thesis
    using d
      filter_membership [of "\<lparr>Number = 57, Result = None, Timestamp = Unix 1503146442 0\<rparr>"
        "Unix 1503146842 0"
        "[\<lparr>Number = 57, Result = None, Timestamp = Unix 1503146442 0\<rparr>,
          \<lparr>Number = 51, Result = Some ''SUCCESS'', Timestamp = Unix 1503144132 0\<rparr>]"
        300000000000]
      filter_membership [of "\<lparr>Number = 51, Result = Some ''SUCCESS'', Timestamp = Unix 1503144132 0\<rparr>"
        "Unix 1503146842 0"
        "[\<lparr>Number = 57, Result = None, Timestamp = Unix 1503146442 0\<rparr>,
          \<lparr>Number = 51, Result = Some ''SUCCESS'', Timestamp = Unix 1503144132 0\<rparr>]"
        300000000000]
      filter_membership [of "\<lparr>Number = 57, Result = None, Timestamp = Unix 1503146442 0\<rparr>"
        "Unix 1503146842 0"
        "[\<lparr>Number = 57, Result = None, Timestamp = Unix 1503146442 0\<rparr>,
          \<lparr>Number = 51, Result = Some ''SUCCESS'', Timestamp = Unix 1503144132 0\<rparr>]"
        400000000000]
    by simp
qed

text \<open>
  Claim C10. The filter is monotone in the threshold: for every list of builds, a fixed
  reading of the clock and thresholds \<open>T2 \<le> T1\<close>, every build that
  \<open>filterUnfinishedTooLongBuilds\<close> returns at \<open>T1\<close> it also returns at \<open>T2\<close> (in
  the same order); so when the critical threshold is at least the warning threshold,
  a list that triggers CRITICAL would trigger WARNING too.
\<close>

theorem filter_threshold_monotone:
  assumes "T2 \<le> T1"
  shows "set (filterUnfinishedTooLongBuilds now bs T1) \<subseteq> set (filterUnfinishedTooLongBuilds now bs T2)
         \<and> subseq (filterUnfinishedTooLongBuilds now bs T1) (filterUnfinishedTooLongBuilds now bs T2)
         \<and> (filterUnfinishedTooLongBuilds now bs T2 = [] \<longrightarrow> filterUnfinishedTooLongBuilds now bs T1 = [])"
proof -
  have imp: "too_long now T1 b \<Longrightarrow> too_long now T2 b" for b
    using assms by (simp add: too_long_def)
  have "filter (too_long now T1) bs = filter (too_long now T1) (filter (too_long now T2) bs)"
    using imp by (induction bs) auto
  then have sub: "subseq (filter (too_long now T1) bs) (filter (too_long now T2) bs)"
    by (metis subseq_filter_left)
  have "set (filter (too_long now T1) bs) \<subseteq> set (filter (too_long now T2) bs)"
    using imp by auto
  moreover have "filter (too_long now T2) bs = [] \<longrightarrow> filter (too_long now T1) bs = []"
    using sub by auto
  ultimately show ?thesis
    using sub by (simp add: filterUnfinishedTooLongBuilds_eq)
qed

theorem filter_threshold_monotone_witness:
  "(60000000000 :: int) \<le> 300000000000
   \<and> filterUnfinishedTooLongBuilds (Unix 1503146842 0)
        [\<lparr>Number = 57, Result = None, Timestamp = Unix 1503146442 0\<rparr>] 300000000000
       = [\<lparr>Number = 57, Result = None, Timestamp = Unix 1503146442 0\<rparr>]
   \<and> set (filterUnfinishedTooLongBuilds (Unix 1503146842 0)
        [\<lparr>Number = 57, Result = None, Timestamp = Unix 1503146442 0\<rparr>] 300000000000)
     \<subseteq> set (filterUnfinishedTooLongBuilds (Unix 1503146842 0)
        [\<lparr>Number = 57, Result = None, Timestamp = Unix 1503146442 0\<rparr>] 60000000000)"
proof -
  have le: "(60000000000 :: int) \<le> 300000000000" by simp
  have "filterUnfinishedTooLongBuilds (Unix 1503146842 0)
        [\<lparr>Number = 57, Result = None, Timestamp = Unix 1503146442 0\<rparr>] 300000000000
       = [\<lparr>Number = 57, Result = None, Timestamp = Unix 1503146442 0\<rparr>]"
    by (simp add: filterUnfinishedTooLongBuilds_def isUnfinished_def time_Sub_def
        nanos_between_def Unix_def toTime_def maxDuration_def minDuration_def
        maxInt64_def minInt64_def)
  then show ?thesis
    using le filter_threshold_monotone [OF le, of "Unix 1503146842 0"
        "[\<lparr>Number = 57, Result = None, Timestamp = Unix 1503146442 0\<rparr>]"]
    by simp
qed

section \<open>The timestamp adapter\<close>

text \<open>
  Claim C5. Decoding maps an integer \<open>m\<close> of milliseconds since the Unix epoch (any
  \<open>int64\<close>, written in decimal, with or without surrounding quotes) to the instant
  \<open>m / 1000\<close> whole seconds after the epoch with no sub-second part, and returns no
  error; the division is Go's, which cuts the fraction off towards zero. The instant is
  an offset from the epoch, so no time zone enters.
\<close>

theorem UnmarshalJSON_millis:
  assumes "minInt64 \<le> m" and "m \<le> maxInt64"
  shows "UnmarshalJSON t (FormatInt m) = (Unix (m sdiv 1000) 0, None)
       \<and> UnmarshalJSON t (quote # FormatInt m @ [quote]) = (Unix (m sdiv 1000) 0, None)
       \<and> sec (Unix (m sdiv 1000) 0) = m sdiv 1000
       \<and> nsec (Unix (m sdiv 1000) 0) = 0
       \<and> m sdiv 1000 = (if 0 \<le> m then m div 1000 else - ((- m) div 1000))"
proof -
  have p: "ParseInt (FormatInt m) = (m, None)"
    using assms by (rule ParseInt_FormatInt)
  have "m sdiv 1000 = (if 0 \<le> m then m div 1000 else - ((- m) div 1000))"
    by (simp add: signed_divide_int_def sgn_if)
  moreover have "UnmarshalJSON t (FormatInt m) = (Unix (m sdiv 1000) 0, None)"
    by (simp only: UnmarshalJSON_def remove_all_FormatInt Let_def p) simp
  moreover have "UnmarshalJSON t (quote # FormatInt m @ [quote]) = (Unix (m sdiv 1000) 0, None)"
    by (simp only: UnmarshalJSON_def remove_all_FormatInt Let_def p) simp
  moreover have "sec (Unix (m sdiv 1000) 0) = m sdiv 1000 \<and> nsec (Unix (m sdiv 1000) 0) = 0"
    by (simp add: Unix_def)
  ultimately show ?thesis by blast
qed

theorem UnmarshalJSON_millis_witness:
  "minInt64 \<le> 1503146442652 \<and> 1503146442652 \<le> maxInt64
   \<and> FormatInt 1503146442652 = ''1503146442652''
   \<and> UnmarshalJSON zero_time ''1503146442652'' = (Unix 1503146442 0, None)"
proof -
  have r: "minInt64 \<le> 1503146442652" "1503146442652 \<le> maxInt64"
    by (simp_all add: minInt64_def maxInt64_def)
  have f: "FormatInt 1503146442652 = ''1503146442652''"
    by (simp add: FormatInt_def formatBits.simps digit_char_def)
  have d: "(1503146442652 :: int) sdiv 1000 = 1503146442"
    by (simp add: signed_divide_int_def)
  show ?thesis
    using r f d UnmarshalJSON_millis [OF r, of zero_time] by simp
qed

text \<open>
  Claim C6, as amended. \<open>UnmarshalJSON\<close> returns an error if and only if its input with
  every quote character removed (wherever it stands, not only around the number) is not
  a decimal integer that fits \<open>int64\<close>: an optional sign, one or more decimal
  digits, and a value from \<open>-2^63\<close> to \<open>2^63 - 1\<close>. On an error the receiver keeps
  its old value, so no time is produced; without an error the receiver is the decoded
  instant.
\<close>

theorem UnmarshalJSON_error_iff:
  "(snd (UnmarshalJSON t s) \<noteq> None \<longleftrightarrow> \<not> int64_decimal (remove_all quote s))
   \<and> (snd (UnmarshalJSON t s) \<noteq> None \<longrightarrow> fst (UnmarshalJSON t s) = t)
   \<and> (snd (UnmarshalJSON t s) = None
        \<longrightarrow> fst (UnmarshalJSON t s) = Unix (decimal_value (remove_all quote s) sdiv 1000) 0)"
  using UnmarshalJSON_char [of t s] by auto

theorem UnmarshalJSON_error_iff_witness:
  "snd (UnmarshalJSON zero_time ''12a'') = Some ErrSyntax
   \<and> fst (UnmarshalJSON zero_time ''12a'') = zero_time
   \<and> \<not> int64_decimal (remove_all quote ''12a'')
   \<and> snd (UnmarshalJSON zero_time ''-1500'') = None
   \<and> fst (UnmarshalJSON zero_time ''-1500'') = Unix (- 1) 0"
proof -
  have a: "UnmarshalJSON zero_time ''12a'' = (zero_time, Some ErrSyntax)"
    by (simp add: UnmarshalJSON_def quote_def ParseInt_def ParseUint_def is_digit_def
        digit_val_def cutoff_def maxUint64_def Let_def)
  have b: "snd (UnmarshalJSON zero_time ''-1500'') = None"
    by (simp add: UnmarshalJSON_def quote_def ParseInt_def ParseUint_def is_digit_def
        digit_val_def cutoff_def maxUint64_def Let_def wrap64_def)
  have c: "decimal_value (remove_all quote ''-1500'') sdiv 1000 = - 1"
    by (simp add: quote_def decimal_value_def digit_val_def signed_divide_int_def)
  show ?thesis
    using a b c UnmarshalJSON_error_iff [of zero_time "''12a''"]
      UnmarshalJSON_error_iff [of zero_time "''-1500''"]
    by simp
qed

text \<open>
  Claim C6 as it was stated fails in both directions. The input \<open>1"2\<close> has no
  surrounding quotes to strip and is no decimal integer, yet it decodes without an error
  (as 12 milliseconds); and \<open>9223372036854775808\<close> is a decimal integer, yet decoding it
  returns a range error.
\<close>

theorem UnmarshalJSON_error_counterexample:
  "snd (UnmarshalJSON zero_time [CHR ''1'', quote, CHR ''2'']) = None
   \<and> fst (UnmarshalJSON zero_time [CHR ''1'', quote, CHR ''2'']) = Unix 0 0
   \<and> \<not> valid_decimal_integer (strip_surrounding_quotes [CHR ''1'', quote, CHR ''2''])
   \<and> snd (UnmarshalJSON zero_time ''9223372036854775808'') = Some ErrRange
   \<and> valid_decimal_integer (strip_surrounding_quotes ''9223372036854775808'')"
proof -
  have a: "UnmarshalJSON zero_time [CHR ''1'', quote, CHR ''2''] = (Unix 0 0, None)"
    by (simp add: UnmarshalJSON_def quote_def ParseInt_def ParseUint_def is_digit_def
        digit_val_def cutoff_def maxUint64_def Let_def wrap64_def signed_divide_int_def)
  have b: "\<not> valid_decimal_integer (strip_surrounding_quotes [CHR ''1'', quote, CHR ''2''])"
    by (simp add: strip_surrounding_quotes_def valid_decimal_integer_def quote_def is_digit_def)
  have c: "snd (UnmarshalJSON zero_time ''9223372036854775808'') = Some ErrRange"
    by (simp add: UnmarshalJSON_def quote_def ParseInt_def ParseUint_def is_digit_def
        digit_val_def cutoff_def maxUint64_def Let_def wrap64_def)
  have d: "valid_decimal_integer (strip_surrounding_quotes ''9223372036854775808'')"
    by (simp add: strip_surrounding_quotes_def valid_decimal_integer_def quote_def is_digit_def)
  show ?thesis using a b c d by simp
qed

lemma MarshalJSON_eq: "MarshalJSON t = (FormatInt (sec t), None)"
  by (simp add: MarshalJSON_def time_Unix_def toTime_def)

text \<open>
  Claim C4 says that encoding renders the milliseconds since the epoch as a decimal
  string. \<open>MarshalJSON\<close> renders \<open>t.Unix()\<close>, the whole seconds since the epoch, with no
  factor of 1000: for the instant 1503146442.652 s it writes \<open>1503146442\<close>, while the
  milliseconds of that instant are \<open>1503146442652\<close> (the number the API sends and
  \<open>UnmarshalJSON\<close> expects).
\<close>

theorem MarshalJSON_emits_seconds:
  "MarshalJSON t = (FormatInt (sec t), None)
   \<and> MarshalJSON (Unix 1503146442 652000000) = (''1503146442'', None)
   \<and> FormatInt (epoch_millis (Unix 1503146442 652000000)) = ''1503146442652''"
  by (simp add: MarshalJSON_eq Unix_def epoch_millis_def FormatInt_def formatBits.simps digit_char_def)

text \<open>
  Claim C3 says that encoding and then decoding gives the instant back, cut to whole
  seconds. Since the encoder writes seconds and the decoder divides what it reads by 1000,
  the instant 1503146442 s comes back as 1503146 s.
\<close>

theorem roundtrip_divides_seconds:
  "MarshalJSON (Unix 1503146442 0) = (''1503146442'', None)
   \<and> UnmarshalJSON zero_time (fst (MarshalJSON (Unix 1503146442 0))) = (Unix 1503146 0, None)
   \<and> truncate_seconds (Unix 1503146442 0) = Unix 1503146442 0
   \<and> Unix 1503146 0 \<noteq> truncate_seconds (Unix 1503146442 0)"
proof -
  have a: "MarshalJSON (Unix 1503146442 0) = (''1503146442'', None)"
    by (simp add: MarshalJSON_eq Unix_def FormatInt_def formatBits.simps digit_char_def)
  have b: "UnmarshalJSON zero_time ''1503146442'' = (Unix 1503146 0, None)"
    by (simp add: UnmarshalJSON_def quote_def ParseInt_def ParseUint_def is_digit_def
        digit_val_def cutoff_def maxUint64_def Let_def wrap64_def signed_divide_int_def)
  have c: "truncate_seconds (Unix 1503146442 0) = Unix 1503146442 0"
    by (simp add: truncate_seconds_def Unix_def)
  have d: "Unix 1503146 0 \<noteq> truncate_seconds (Unix 1503146442 0)"
    by (simp add: truncate_seconds_def Unix_def)
  show ?thesis using a b c d by simp
qed

text \<open>
  What the round trip does give: for an instant whose seconds since the epoch fit
  \<open>int64\<close>, encoding and then decoding yields the instant at a thousandth of those
  seconds (cut towards zero), without an error.
\<close>

theorem roundtrip_general:
  assumes "minInt64 \<le> sec t" and "sec t \<le> maxInt64"
  shows "UnmarshalJSON t0 (fst (MarshalJSON t)) = (Unix (sec t sdiv 1000) 0, None)"
proof -
  have "ParseInt (FormatInt (sec t)) = (sec t, None)"
    using assms by (rule ParseInt_FormatInt)
  then show ?thesis
    by (simp only: MarshalJSON_eq fst_conv UnmarshalJSON_def remove_all_FormatInt Let_def) simp
qed

theorem roundtrip_general_witness:
  "minInt64 \<le> sec (Unix 1503146442 0) \<and> sec (Unix 1503146442 0) \<le> maxInt64
   \<and> UnmarshalJSON zero_time (fst (MarshalJSON (Unix 1503146442 0))) = (Unix 1503146 0, None)"
proof -
  have r: "minInt64 \<le> sec (Unix 1503146442 0)" "sec (Unix 1503146442 0) \<le> maxInt64"
    by (simp_all add: Unix_def minInt64_def maxInt64_def)
  have d: "sec (Unix 1503146442 0) sdiv 1000 = 1503146"
    by (simp add: Unix_def signed_divide_int_def)
  show ?thesis
    using r d roundtrip_general [OF r, of zero_time] by simp
qed

section \<open>The check\<close>

lemma url_jenkins_opts:
  "url jenkins_opts = ''http://localhost:8080/job/sleep30/api/json?tree=builds[result,number,timestamp]{,10}''"
  by (simp add: url_def jenkins_opts_def FormatInt_def formatBits.simps digit_char_def)

lemma duration_mul_Second:
  assumes "- 9223372036 \<le> s" and "s \<le> 9223372036"
  shows "duration_mul Second s = 1000000000 * s"
  unfolding duration_mul_def Second_def
  by (rule wrap64_id) (use assms in \<open>simp_all add: minInt64_def maxInt64_def\<close>)

lemma find_hd_filter:
  "filter P xs \<noteq> [] \<Longrightarrow> List.find P xs = Some (hd (filter P xs))"
  by (induction xs) auto

lemma run_fetched:
  assumes "http_Get (url c) = Inr body"
  shows "run (Some c) http_Get Decode now1 now2 =
     (let bs = Builds (fst (Decode body \<lparr>Builds = []\<rparr>));
          crit = filterUnfinishedTooLongBuilds now1 bs (duration_mul Second (CritSecond c));
          warn = filterUnfinishedTooLongBuilds now2 bs (duration_mul Second (WarningSecond c))
      in Return (if crit \<noteq> [] then NewChecker CRITICAL (too_long_msg (hd crit))
                 else if warn \<noteq> [] then NewChecker WARNING (too_long_msg (hd warn))
                 else NewChecker OK ''No build that takes too long time exists''))"
  using assms by (simp add: run_def Let_def split: list.splits)

text \<open>
  Claim C1. Severity resolution, once the fetch has answered: when the filter at the
  critical threshold returns a non-empty list the verdict is CRITICAL with the message
  \<open>Build id = <number> takes too long time\<close> for the first build of that list, which
  is the first build of the fetched list that passes the test, and nothing else is looked
  at; otherwise, when the filter at the warning threshold returns a non-empty list the
  verdict is WARNING with the message built the same way; otherwise the verdict is OK with
  the message \<open>No build that takes too long time exists\<close>. The critical check comes first
  for every pair of thresholds, whatever their order. The thresholds are the configured
  seconds times \<open>time.Second\<close>, and each call of the filter reads the clock itself.
\<close>

theorem run_severity:
  fixes c :: opts
    and http_Get :: "string \<Rightarrow> string + 'body"
    and Decode :: "'body \<Rightarrow> builds \<Rightarrow> builds \<times> string option"
    and body :: 'body
    and now1 now2 :: time
  assumes "http_Get (url c) = Inr body"
  defines "bs \<equiv> Builds (fst (Decode body \<lparr>Builds = []\<rparr>))"
  defines "crit \<equiv> filterUnfinishedTooLongBuilds now1 bs (duration_mul Second (CritSecond c))"
  defines "warn \<equiv> filterUnfinishedTooLongBuilds now2 bs (duration_mul Second (WarningSecond c))"
  shows "run (Some c) http_Get Decode now1 now2 =
           Return (if crit \<noteq> []
                   then NewChecker CRITICAL
                          (''Build id = '' @ FormatInt (Number (hd crit)) @ '' takes too long time'')
                   else if warn \<noteq> []
                   then NewChecker WARNING
                          (''Build id = '' @ FormatInt (Number (hd warn)) @ '' takes too long time'')
                   else NewChecker OK ''No build that takes too long time exists'')
         \<and> (crit \<noteq> [] \<longrightarrow>
              List.find (too_long now1 (duration_mul Second (CritSecond c))) bs = Some (hd crit))
         \<and> (warn \<noteq> [] \<longrightarrow>
              List.find (too_long now2 (duration_mul Second (WarningSecond c))) bs = Some (hd warn))"
proof -
  have "crit \<noteq> [] \<longrightarrow>
      List.find (too_long now1 (duration_mul Second (CritSecond c))) bs = Some (hd crit)"
    unfolding crit_def filterUnfinishedTooLongBuilds_eq by (simp add: find_hd_filter)
  moreover have "warn \<noteq> [] \<longrightarrow>
      List.find (too_long now2 (duration_mul Second (WarningSecond c))) bs = Some (hd warn)"
    unfolding warn_def filterUnfinishedTooLongBuilds_eq by (simp add: find_hd_filter)
  moreover have "run (Some c) http_Get Decode now1 now2 =
           Return (if crit \<noteq> []
                   then NewChecker CRITICAL
                          (''Build id = '' @ FormatInt (Number (hd crit)) @ '' takes too long time'')
                   else if warn \<noteq> []
                   then NewChecker WARNING
                          (''Build id = '' @ FormatInt (Number (hd warn)) @ '' takes too long time'')
                   else NewChecker OK ''No build that takes too long time exists'')"
    using assms(1)
      run_fetched [where http_Get = http_Get and c = c and body = body and Decode = Decode
        and ?now1.0 = now1 and ?now2.0 = now2]
    by (simp add: Let_def too_long_msg_def bs_def crit_def warn_def)
  ultimately show ?thesis by blast
qed

lemma filter_build57_300:
  "filterUnfinishedTooLongBuilds (Unix 1503146842 0) [build57, build51] (duration_mul Second 300)
     = [build57]"
  by (simp add: filterUnfinishedTooLongBuilds_def isUnfinished_def time_Sub_def
        nanos_between_def Unix_def toTime_def maxDuration_def minDuration_def
        maxInt64_def minInt64_def build57_def build51_def duration_mul_def Second_def wrap64_def)

lemma filter_build57_misconfigured:
  "filterUnfinishedTooLongBuilds (Unix 1503146532 0) [build57, build51] (duration_mul Second 60)
     = [build57]"
  by (simp add: filterUnfinishedTooLongBuilds_def isUnfinished_def time_Sub_def
        nanos_between_def Unix_def toTime_def maxDuration_def minDuration_def
        maxInt64_def minInt64_def build57_def build51_def duration_mul_def Second_def wrap64_def)

theorem run_severity_witness:
  "run (Some jenkins_opts)
      (\<lambda>u. if u = ''http://localhost:8080/job/sleep30/api/json?tree=builds[result,number,timestamp]{,10}''
            then Inr ''{...}'' else Inl ''no such host'')
      (\<lambda>body v. (\<lparr>Builds = [build57, build51]\<rparr>, None))
      (Unix 1503146842 0) (Unix 1503146842 0)
    = Return (NewChecker CRITICAL ''Build id = 57 takes too long time'')
   \<and> run (Some (jenkins_opts\<lparr>WarningSecond := 300, CritSecond := 60\<rparr>))
      (\<lambda>u. Inr ''{...}'' :: string + string)
      (\<lambda>body v. (\<lparr>Builds = [build57, build51]\<rparr>, None))
      (Unix 1503146532 0) (Unix 1503146532 0)
    = Return (NewChecker CRITICAL ''Build id = 57 takes too long time'')"
proof -
  let ?get = "\<lambda>u. if u = ''http://localhost:8080/job/sleep30/api/json?tree=builds[result,number,timestamp]{,10}''
            then Inr ''{...}'' else (Inl ''no such host'' :: string + string)"
  let ?dec = "\<lambda>(body :: string) (v :: builds). (\<lparr>Builds = [build57, build51]\<rparr>, None :: string option)"
  have g: "?get (url jenkins_opts) = Inr ''{...}''"
    by (simp add: url_jenkins_opts)
  have c: "CritSecond jenkins_opts = 300" by (simp add: jenkins_opts_def)
  have f: "FormatInt (Number build57) = ''57''"
    by (simp add: build57_def FormatInt_def formatBits.simps digit_char_def)
  have first: "run (Some jenkins_opts) ?get ?dec (Unix 1503146842 0) (Unix 1503146842 0)
      = Return (NewChecker CRITICAL ''Build id = 57 takes too long time'')"
    using g
      run_severity [where http_Get = ?get and c = jenkins_opts and body = "''{...}''"
        and Decode = ?dec
        and ?now1.0 = "Unix 1503146842 0" and ?now2.0 = "Unix 1503146842 0"]
    by (simp add: c filter_build57_300 f)
  have second: "run (Some (jenkins_opts\<lparr>WarningSecond := 300, CritSecond := 60\<rparr>))
      (\<lambda>u. Inr ''{...}'' :: string + string) ?dec (Unix 1503146532 0) (Unix 1503146532 0)
      = Return (NewChecker CRITICAL ''Build id = 57 takes too long time'')"
    using run_severity [where http_Get = "\<lambda>u. Inr ''{...}'' :: string + string"
        and c = "jenkins_opts\<lparr>WarningSecond := 300, CritSecond := 60\<rparr>" and body = "''{...}''"
        and Decode = ?dec
        and ?now1.0 = "Unix 1503146532 0" and ?now2.0 = "Unix 1503146532 0"]
    by (simp add: filter_build57_misconfigured f)
  from first second show ?thesis by simp
qed

lemma run_failed:
  assumes "http_Get (url c) = Inl err"
  shows "run (Some c) http_Get Decode now1 now2
           = Return \<lparr>Status = UNKNOWN, Message = ''Faild to fetch jenkins metrics: '' @ err\<rparr>"
  using assms by (simp add: run_def Unknown_def NewChecker_def)

lemma run_fetched_status:
  assumes "http_Get (url c) = Inr body"
  shows "\<exists>ck. run (Some c) http_Get Decode now1 now2 = Return ck
              \<and> Status ck \<in> {OK, WARNING, CRITICAL}"
  using assms
    run_fetched [where http_Get = http_Get and c = c and body = body and Decode = Decode
      and ?now1.0 = now1 and ?now2.0 = now2]
  by (simp add: Let_def NewChecker_def)

text \<open>
  Claim C7. When the fetch fails the check returns UNKNOWN with the error's text in the
  message, and neither the decoder nor the clock has any part in the result (nothing is
  evaluated further or tried again); when the fetch answers, the verdict is one of OK,
  WARNING and CRITICAL; and an invocation whose options were parsed returns exactly one
  verdict.
\<close>

theorem run_fetch_outcome:
  fixes http_Get :: "string \<Rightarrow> string + 'body"
    and Decode Decode' :: "'body \<Rightarrow> builds \<Rightarrow> builds \<times> string option"
  shows "(http_Get (url c) = Inl err \<longrightarrow>
            run (Some c) http_Get Decode now1 now2
              = Return \<lparr>Status = UNKNOWN, Message = ''Faild to fetch jenkins metrics: '' @ err\<rparr>
            \<and> run (Some c) http_Get Decode' now1' now2' = run (Some c) http_Get Decode now1 now2)
       \<and> (http_Get (url c) = Inr body \<longrightarrow>
            (\<exists>ck. run (Some c) http_Get Decode now1 now2 = Return ck
                  \<and> Status ck \<in> {OK, WARNING, CRITICAL}))
       \<and> (\<exists>!ck. run (Some c) http_Get Decode now1 now2 = Return ck)"
proof -
  have a: "http_Get (url c) = Inl err \<longrightarrow>
            run (Some c) http_Get Decode now1 now2
              = Return \<lparr>Status = UNKNOWN, Message = ''Faild to fetch jenkins metrics: '' @ err\<rparr>
            \<and> run (Some c) http_Get Decode' now1' now2' = run (Some c) http_Get Decode now1 now2"
    by (simp add: run_failed)
  have b: "http_Get (url c) = Inr body \<longrightarrow>
            (\<exists>ck. run (Some c) http_Get Decode now1 now2 = Return ck
                  \<and> Status ck \<in> {OK, WARNING, CRITICAL})"
    using run_fetched_status [where http_Get = http_Get and c = c and body = body
        and Decode = Decode and ?now1.0 = now1 and ?now2.0 = now2]
    by blast
  have "\<exists>ck. run (Some c) http_Get Decode now1 now2 = Return ck"
  proof (cases "http_Get (url c)")
    case (Inl e)
    then show ?thesis by (simp add: run_failed)
  next
    case (Inr bd)
    then show ?thesis
      using run_fetched_status [where http_Get = http_Get and c = c and body = bd
        and Decode = Decode and ?now1.0 = now1 and ?now2.0 = now2]
      by blast
  qed
  then have c: "\<exists>!ck. run (Some c) http_Get Decode now1 now2 = Return ck"
    by auto
  from a b c show ?thesis by blast
qed

theorem run_fetch_outcome_witness:
  "run (Some jenkins_opts) (\<lambda>u. Inl ''connection refused'' :: string + string)
      (\<lambda>body v. (\<lparr>Builds = [build57, build51]\<rparr>, None :: string option))
      (Unix 1503146842 0) (Unix 1503146842 0)
    = Return \<lparr>Status = UNKNOWN,
               Message = ''Faild to fetch jenkins metrics: connection refused''\<rparr>
   \<and> (\<exists>ck. run (Some jenkins_opts) (\<lambda>u. Inr ''{...}'' :: string + string)
              (\<lambda>body v. (\<lparr>Builds = [build57, build51]\<rparr>, None :: string option))
              (Unix 1503146842 0) (Unix 1503146842 0) = Return ck
            \<and> Status ck \<in> {OK, WARNING, CRITICAL})"
proof -
  let ?dec = "\<lambda>(body :: string) (v :: builds). (\<lparr>Builds = [build57, build51]\<rparr>, None :: string option)"
  have a: "(\<lambda>u. Inl ''connection refused'' :: string + string) (url jenkins_opts)
             = Inl ''connection refused''"
    by simp
  have b: "(\<lambda>u. Inr ''{...}'' :: string + string) (url jenkins_opts) = Inr ''{...}''"
    by simp
  show ?thesis
    using a b
      run_fetch_outcome [where http_Get = "\<lambda>u. Inl ''connection refused'' :: string + string"
        and c = jenkins_opts and err = "''connection refused''" and Decode = ?dec
        and ?now1.0 = "Unix 1503146842 0" and ?now2.0 = "Unix 1503146842 0"
        and Decode' = ?dec and now1' = "Unix 1503146842 0" and now2' = "Unix 1503146842 0",
        THEN conjunct1]
      run_fetch_outcome [where http_Get = "\<lambda>u. Inr ''{...}'' :: string + string"
        and c = jenkins_opts and body = "''{...}''" and Decode = ?dec
        and ?now1.0 = "Unix 1503146842 0" and ?now2.0 = "Unix 1503146842 0",
        THEN conjunct2, THEN conjunct1]
    by simp
qed

text \<open>
  Claim C9. A failure to decode the response body does not abort the check: the decoder's
  error is dropped, so the result is the one the same struct would give without an error,
  it is never UNKNOWN once the fetch has answered, and a struct the decoder left at its
  zero value (no builds) gives OK.
\<close>

theorem run_drops_decode_error:
  fixes http_Get :: "string \<Rightarrow> string + 'body"
    and Decode :: "'body \<Rightarrow> builds \<Rightarrow> builds \<times> string option"
  shows "run parsed http_Get Decode now1 now2
           = run parsed http_Get (\<lambda>b v. (fst (Decode b v), None)) now1 now2
       \<and> (http_Get (url c) = Inr body \<longrightarrow>
            (\<exists>ck. run (Some c) http_Get Decode now1 now2 = Return ck \<and> Status ck \<noteq> UNKNOWN))
       \<and> (http_Get (url c) = Inr body \<and> Decode body \<lparr>Builds = []\<rparr> = (\<lparr>Builds = []\<rparr>, Some e) \<longrightarrow>
            run (Some c) http_Get Decode now1 now2
              = Return (NewChecker OK ''No build that takes too long time exists''))"
proof -
  have a: "run parsed http_Get Decode now1 now2
           = run parsed http_Get (\<lambda>b v. (fst (Decode b v), None)) now1 now2"
    by (simp add: run_def split: option.splits sum.splits)
  have b: "http_Get (url c) = Inr body \<longrightarrow>
            (\<exists>ck. run (Some c) http_Get Decode now1 now2 = Return ck \<and> Status ck \<noteq> UNKNOWN)"
    using run_fetched_status [where http_Get = http_Get and c = c and body = body
        and Decode = Decode and ?now1.0 = now1 and ?now2.0 = now2]
    by auto
  have c: "http_Get (url c) = Inr body \<and> Decode body \<lparr>Builds = []\<rparr> = (\<lparr>Builds = []\<rparr>, Some e) \<longrightarrow>
            run (Some c) http_Get Decode now1 now2
              = Return (NewChecker OK ''No build that takes too long time exists'')"
    by (simp add: run_def filterUnfinishedTooLongBuilds_def)
  from a b c show ?thesis by blast
qed

theorem run_drops_decode_error_witness:
  "run (Some jenkins_opts) (\<lambda>u. Inr ''<html>'' :: string + string)
      (\<lambda>body v. (v, Some ''invalid character''))
      (Unix 1503146842 0) (Unix 1503146842 0)
    = Return (NewChecker OK ''No build that takes too long time exists'')
   \<and> (\<exists>ck. run (Some jenkins_opts) (\<lambda>u. Inr ''<html>'' :: string + string)
              (\<lambda>body v. (v, Some ''invalid character''))
              (Unix 1503146842 0) (Unix 1503146842 0) = Return ck \<and> Status ck \<noteq> UNKNOWN)"
proof -
  let ?get = "\<lambda>u :: string. Inr ''<html>'' :: string + string"
  let ?dec = "\<lambda>(body :: string) (v :: builds). (v, Some ''invalid character'')"
  have g: "?get (url jenkins_opts) = Inr ''<html>''" by simp
  have d: "?dec ''<html>'' \<lparr>Builds = []\<rparr> = (\<lparr>Builds = []\<rparr>, Some ''invalid character'')" by simp
  show ?thesis
    using g d
      run_drops_decode_error [where http_Get = ?get and c = jenkins_opts and body = "''<html>''"
        and Decode = ?dec and e = "''invalid character''" and parsed = "Some jenkins_opts"
        and ?now1.0 = "Unix 1503146842 0" and ?now2.0 = "Unix 1503146842 0", THEN conjunct2]
    by (simp add: NewChecker_def)
qed

section \<open>Further properties of the thresholds and the elapsed time\<close>

lemma duration_mul_Second_range:
  "minDuration \<le> duration_mul Second s \<and> duration_mul Second s < maxDuration"
proof -
  have lo: "minDuration \<le> duration_mul Second s"
    by (simp add: duration_mul_def wrap64_def minDuration_def minInt64_def)
  have "(1000000000 * s + 9223372036854775808) mod 18446744073709551616 < 18446744073709551616"
    by simp
  then have le: "duration_mul Second s \<le> maxDuration"
    by (simp add: duration_mul_def Second_def wrap64_def maxDuration_def maxInt64_def)
  have "(512 :: int) dvd 1000000000 * s + 9223372036854775808"
    by (rule dvd_add) simp_all
  moreover have "(512 :: int) dvd 18446744073709551616" by simp
  ultimately have "(512 :: int) dvd (1000000000 * s + 9223372036854775808) mod 18446744073709551616"
    by (simp add: dvd_mod_iff)
  then have "(512 :: int) dvd duration_mul Second s"
    by (simp add: duration_mul_def Second_def wrap64_def)
  moreover have "\<not> (512 :: int) dvd maxDuration"
    by (simp add: maxDuration_def maxInt64_def)
  ultimately have "duration_mul Second s \<noteq> maxDuration" by metis
  with le lo show ?thesis by simp
qed

text \<open>
  The elapsed time the filter compares is \<open>now.Sub(timestamp)\<close>, which stops at the
  largest duration. For every threshold below the largest duration this is the same as
  comparing the exact number of nanoseconds between the two instants; at the largest
  duration itself the filter returns nothing.
\<close>

theorem filter_membership_exact:
  "(minDuration \<le> T \<and> T < maxDuration \<longrightarrow>
      (b \<in> set (filterUnfinishedTooLongBuilds now bs T)
         \<longleftrightarrow> b \<in> set bs \<and> Result b = None \<and> nanos_between now (toTime (Timestamp b)) > T))
   \<and> filterUnfinishedTooLongBuilds now bs maxDuration = []"
proof -
  have "time_Sub now u \<le> maxDuration" for u
    by (simp add: time_Sub_def Let_def minDuration_def maxDuration_def minInt64_def maxInt64_def)
  then have "\<not> too_long now maxDuration x" for x
    by (simp add: too_long_def not_less)
  then have "filterUnfinishedTooLongBuilds now bs maxDuration = []"
    by (simp add: filterUnfinishedTooLongBuilds_eq)
  then show ?thesis
    by (auto simp: filterUnfinishedTooLongBuilds_eq too_long_def isUnfinished_def
        time_Sub_exact_gt)
qed

theorem filter_membership_exact_witness:
  "minDuration \<le> 300000000000 \<and> 300000000000 < maxDuration
   \<and> nanos_between (Unix 1503146842 0) (toTime (Timestamp build57)) = 400000000000
   \<and> build57 \<in> set (filterUnfinishedTooLongBuilds (Unix 1503146842 0) [build57, build51] 300000000000)"
proof -
  have r: "minDuration \<le> 300000000000 \<and> 300000000000 < maxDuration"
    by (simp add: minDuration_def maxDuration_def minInt64_def maxInt64_def)
  have n: "nanos_between (Unix 1503146842 0) (toTime (Timestamp build57)) = 400000000000"
    by (simp add: nanos_between_def Unix_def toTime_def build57_def)
  have m: "build57 \<in> set [build57, build51]" "Result build57 = None"
    by (simp_all add: build57_def)
  show ?thesis
    using r n m
      filter_membership_exact [where T = 300000000000 and b = build57
        and now = "Unix 1503146842 0" and bs = "[build57, build51]", THEN conjunct1]
    by simp
qed

text \<open>
  The thresholds \<open>run\<close> passes to the filter are \<open>time.Second * time.Duration(seconds)\<close>,
  an \<open>int64\<close> product. For seconds from \<open>-9223372036\<close> to \<open>9223372036\<close> it is the
  exact number of nanoseconds; beyond that it wraps around, so \<open>9223372037\<close> seconds
  become a negative threshold. Whatever the seconds, the product is a duration below the
  largest one.
\<close>

theorem threshold_of_seconds:
  "(- 9223372036 \<le> s \<and> s \<le> 9223372036 \<longrightarrow> duration_mul Second s = 1000000000 * s)
   \<and> duration_mul Second 9223372037 = - 9223372036709551616
   \<and> minDuration \<le> duration_mul Second s \<and> duration_mul Second s < maxDuration"
proof -
  have a: "- 9223372036 \<le> s \<and> s \<le> 9223372036 \<longrightarrow> duration_mul Second s = 1000000000 * s"
    using duration_mul_Second by blast
  have b: "duration_mul Second 9223372037 = - 9223372036709551616"
    by (simp add: duration_mul_def Second_def wrap64_def)
  from a b duration_mul_Second_range [of s] show ?thesis by blast
qed

theorem threshold_of_seconds_witness:
  "- 9223372036 \<le> (300 :: int) \<and> (300 :: int) \<le> 9223372036
   \<and> duration_mul Second 300 = 300000000000"
  using threshold_of_seconds [where s = 300, THEN conjunct1] by simp

text \<open>
  A build whose timestamp was never decoded keeps the zero time (year 1). Read at any
  instant from 1970 on, its elapsed time is the largest duration, so when its result is
  absent the filter keeps it at every threshold \<open>run\<close> can pass.
\<close>

theorem zero_timestamp_too_long:
  "0 \<le> sec now \<and> 0 \<le> nsec now \<longrightarrow>
      time_Sub now (toTime zero_time) = maxDuration
      \<and> filterUnfinishedTooLongBuilds now
           [\<lparr>Number = n, Result = None, Timestamp = zero_time\<rparr>] (duration_mul Second s)
         = [\<lparr>Number = n, Result = None, Timestamp = zero_time\<rparr>]"
proof (intro impI)
  assume "0 \<le> sec now \<and> 0 \<le> nsec now"
  then have "nanos_between now (toTime zero_time) > maxDuration"
    by (simp add: nanos_between_def toTime_def zero_time_def maxDuration_def maxInt64_def)
  then have m: "time_Sub now (toTime zero_time) = maxDuration"
    by (simp add: time_Sub_def Let_def)
  with duration_mul_Second_range [of s]
  show "time_Sub now (toTime zero_time) = maxDuration
      \<and> filterUnfinishedTooLongBuilds now
           [\<lparr>Number = n, Result = None, Timestamp = zero_time\<rparr>] (duration_mul Second s)
         = [\<lparr>Number = n, Result = None, Timestamp = zero_time\<rparr>]"
    by (simp add: filterUnfinishedTooLongBuilds_def isUnfinished_def)
qed

theorem zero_timestamp_too_long_witness:
  "0 \<le> sec (Unix 1503146842 0) \<and> 0 \<le> nsec (Unix 1503146842 0)
   \<and> time_Sub (Unix 1503146842 0) (toTime zero_time) = maxDuration
   \<and> filterUnfinishedTooLongBuilds (Unix 1503146842 0)
         [\<lparr>Number = 57, Result = None, Timestamp = zero_time\<rparr>] (duration_mul Second 300)
       = [\<lparr>Number = 57, Result = None, Timestamp = zero_time\<rparr>]"
proof -
  have p: "0 \<le> sec (Unix 1503146842 0) \<and> 0 \<le> nsec (Unix 1503146842 0)"
    by (simp add: Unix_def)
  show ?thesis
    using p zero_timestamp_too_long [where now = "Unix 1503146842 0" and n = 57 and s = 300]
    by simp
qed

end
